theory Spec2Isabelle
  imports
    Main
    "HOL-Library.Char_ord"
    "HOL-Library.List_Lexorder"
    "HOL-Library.Product_Lexorder"
    "HOL-Library.Multiset"
    "HOL-Library.Sublist"
begin

section \<open>Product search dashboard (app.py)\<close>

text \<open>
  The program keeps a nested dictionary \<open>PRODUCTS\<close> (category, then item, then the item's
  attributes), flattens it once into a pandas data frame (\<open>load_data\<close>), and shows either
  the rows selected by the sidebar filters (\<open>filter_data\<close>) or the rows selected by the
  search box. A data frame is modelled by the list of its rows, in index order; every
  frame of the program carries the same five columns, so a row is a record with these
  five fields. Python strings are modelled as \<open>string\<close>; the catalogue is plain ASCII.
\<close>

subsection \<open>Rows and the static catalogue\<close>

text \<open>
  An entry of \<open>PRODUCTS\<close> has the keys \<open>name\<close>, \<open>price\<close>, \<open>company\<close> and
  \<open>last_updated\<close>; in the dictionary the date is still a string, in the frame it is a
  timestamp, hence the type parameter. \<open>load_data\<close> adds the key \<open>category\<close>.
\<close>

record 'd details =
  name :: string
  price :: int
  company :: string
  last_updated :: 'd

record 'd row = "'d details" +
  category :: string

text \<open>A timestamp without time of day: year, month, day, ordered lexicographically.\<close>

type_synonym date = "nat \<times> nat \<times> nat"

type_synonym product = "date row"

datatype error =
    ParseError string
  | KeyError string
  | IndexError
  | ReError string
  | PatternNotModelled

text \<open>
  A Python dictionary iterates in insertion order, so a dictionary is an association
  list here: first the categories, then the items of each category.
\<close>

type_synonym catalogue = "(string \<times> (string \<times> string details) list) list"

definition PRODUCTS :: catalogue where
  "PRODUCTS =
    [(''Electronics'',
       [(''Laptop'', \<lparr>name = ''Laptop'', price = 70000, company = ''Dell'',
                     last_updated = ''2025-10-10''\<rparr>),
        (''Smartphone'', \<lparr>name = ''Smartphone'', price = 30000, company = ''Samsung'',
                     last_updated = ''2025-09-15''\<rparr>),
        (''Earbuds'', \<lparr>name = ''Earbuds'', price = 2500, company = ''Realme'',
                     last_updated = ''2025-08-20''\<rparr>)]),
     (''Appliances'',
       [(''Refrigerator'', \<lparr>name = ''Refrigerator'', price = 55000, company = ''LG'',
                     last_updated = ''2025-09-25''\<rparr>),
        (''Washing Machine'', \<lparr>name = ''Washing Machine'', price = 45000,
                     company = ''Whirlpool'', last_updated = ''2025-07-18''\<rparr>)]),
     (''Accessories'',
       [(''Keyboard'', \<lparr>name = ''Keyboard'', price = 1200, company = ''Logitech'',
                     last_updated = ''2025-08-05''\<rparr>),
        (''Mouse'', \<lparr>name = ''Mouse'', price = 800, company = ''HP'',
                     last_updated = ''2025-07-30''\<rparr>)])]"

subsection \<open>Parsing a date\<close>

text \<open>
  \<open>pd.to_datetime\<close> is a library function. The model reads the one format the catalogue
  uses, \<open>YYYY-MM-DD\<close>, checks that the date exists in the calendar, and reports every
  other string as a parse error (pandas itself accepts further spellings of a date;
  none occurs in the catalogue). \<open>load_data\<close> below takes the parser as an argument, so
  what is proved about the loader holds for any parser.
\<close>

definition digit_val :: "char \<Rightarrow> nat option" where
  "digit_val c =
     map_of [(CHR ''0'', 0), (CHR ''1'', 1), (CHR ''2'', 2), (CHR ''3'', 3), (CHR ''4'', 4),
             (CHR ''5'', 5), (CHR ''6'', 6), (CHR ''7'', 7), (CHR ''8'', 8), (CHR ''9'', 9)] c"

fun digits_val :: "string \<Rightarrow> nat option" where
  "digits_val [] = Some 0"
| "digits_val (c # cs) =
     (case digit_val c of
        None \<Rightarrow> None
      | Some d \<Rightarrow>
          (case digits_val cs of
             None \<Rightarrow> None
           | Some n \<Rightarrow> Some (d * 10 ^ length cs + n)))"

definition is_leap :: "nat \<Rightarrow> bool" where
  "is_leap y \<longleftrightarrow> (y mod 4 = 0 \<and> y mod 100 \<noteq> 0) \<or> y mod 400 = 0"

definition days_in_month :: "nat \<Rightarrow> nat \<Rightarrow> nat" where
  "days_in_month y m =
     (if m = 2 then (if is_leap y then 29 else 28)
      else if m \<in> {4, 6, 9, 11} then 30 else 31)"

definition to_datetime :: "string \<Rightarrow> error + date" where
  "to_datetime s =
     (if length s = 10 \<and> s ! 4 = CHR ''-'' \<and> s ! 7 = CHR ''-'' then
        (case (digits_val (take 4 s), digits_val (take 2 (drop 5 s)),
               digits_val (drop 8 s)) of
           (Some y, Some m, Some d) \<Rightarrow>
             (if 1 \<le> m \<and> m \<le> 12 \<and> 1 \<le> d \<and> d \<le> days_in_month y m
              then Inr (y, m, d) else Inl (ParseError s))
         | _ \<Rightarrow> Inl (ParseError s))
      else Inl (ParseError s))"

subsection \<open>The loader\<close>

text \<open>
  \<^verbatim>\<open>
  data = []
  for cat, items in PRODUCTS.items():
      for item, details in items.items():
          details = details.copy()
          details["category"] = cat
          details["last_updated"] = pd.to_datetime(details["last_updated"])
          data.append(details)
  df = pd.DataFrame(data)
  \<close>
  The two loops are two recursive functions that carry the list \<open>data\<close>; a date that
  does not parse raises, which ends both loops.
\<close>

definition make_row ::
  "(string \<Rightarrow> error + date) \<Rightarrow> string \<Rightarrow> string details \<Rightarrow> error + product" where
  "make_row parse cat d =
     (case parse (last_updated d) of
        Inl e \<Rightarrow> Inl e
      | Inr t \<Rightarrow> Inr \<lparr>name = name d, price = price d, company = company d,
                     last_updated = t, category = cat\<rparr>)"

fun load_items ::
  "(string \<Rightarrow> error + date) \<Rightarrow> string \<Rightarrow> (string \<times> string details) list \<Rightarrow>
   product list \<Rightarrow> error + product list" where
  "load_items parse cat [] data = Inr data"
| "load_items parse cat ((item, d) # items) data =
     (case make_row parse cat d of
        Inl e \<Rightarrow> Inl e
      | Inr r \<Rightarrow> load_items parse cat items (data @ [r]))"

fun load_categories ::
  "(string \<Rightarrow> error + date) \<Rightarrow> catalogue \<Rightarrow> product list \<Rightarrow> error + product list" where
  "load_categories parse [] data = Inr data"
| "load_categories parse ((cat, items) # rest) data =
     (case load_items parse cat items data of
        Inl e \<Rightarrow> Inl e
      | Inr data' \<Rightarrow> load_categories parse rest data')"

definition load_data_from :: "(string \<Rightarrow> error + date) \<Rightarrow> catalogue \<Rightarrow> error + product list" where
  "load_data_from parse cat = load_categories parse cat []"

definition load_data :: "error + product list" where
  "load_data = load_data_from to_datetime PRODUCTS"

text \<open>The frame that \<open>load_data\<close> returns for the catalogue above, written out.\<close>

definition sample_rows :: "product list" where
  "sample_rows =
    [\<lparr>name = ''Laptop'', price = 70000, company = ''Dell'',
      last_updated = (2025, 10, 10), category = ''Electronics''\<rparr>,
     \<lparr>name = ''Smartphone'', price = 30000, company = ''Samsung'',
      last_updated = (2025, 9, 15), category = ''Electronics''\<rparr>,
     \<lparr>name = ''Earbuds'', price = 2500, company = ''Realme'',
      last_updated = (2025, 8, 20), category = ''Electronics''\<rparr>,
     \<lparr>name = ''Refrigerator'', price = 55000, company = ''LG'',
      last_updated = (2025, 9, 25), category = ''Appliances''\<rparr>,
     \<lparr>name = ''Washing Machine'', price = 45000, company = ''Whirlpool'',
      last_updated = (2025, 7, 18), category = ''Appliances''\<rparr>,
     \<lparr>name = ''Keyboard'', price = 1200, company = ''Logitech'',
      last_updated = (2025, 8, 5), category = ''Accessories''\<rparr>,
     \<lparr>name = ''Mouse'', price = 800, company = ''HP'',
      last_updated = (2025, 7, 30), category = ''Accessories''\<rparr>]"

text \<open>
  What the loader is expected to compute, as a specification: the (category, entry)
  pairs in insertion order, each turned into a row, stopping at the first error.
\<close>

definition entries_in_order :: "catalogue \<Rightarrow> (string \<times> string details) list" where
  "entries_in_order cat =
     concat (map (\<lambda>(c, items). map (\<lambda>(item, d). (c, d)) items) cat)"

fun all_or_first_error :: "('a \<Rightarrow> error + 'b) \<Rightarrow> 'a list \<Rightarrow> error + 'b list" where
  "all_or_first_error f [] = Inr []"
| "all_or_first_error f (x # xs) =
     (case f x of
        Inl e \<Rightarrow> Inl e
      | Inr y \<Rightarrow> (case all_or_first_error f xs of Inl e \<Rightarrow> Inl e | Inr ys \<Rightarrow> Inr (y # ys)))"

subsection \<open>Columns and their values\<close>

text \<open>
  A column of the frame holds integers (\<open>price\<close>), timestamps (\<open>last_updated\<close>) or
  strings (the other three). Python compares integers by value, timestamps by time and
  strings by code point, lexicographically. One column never mixes the three kinds; the
  order between different kinds below only completes the linear order and is never used
  on a column.
\<close>

datatype cell = IntCell int | TimeCell date | StrCell string

instantiation cell :: linorder
begin

fun less_eq_cell :: "cell \<Rightarrow> cell \<Rightarrow> bool" where
  "less_eq_cell (IntCell a) (IntCell b) = (a \<le> b)"
| "less_eq_cell (TimeCell a) (TimeCell b) = (a \<le> b)"
| "less_eq_cell (StrCell a) (StrCell b) = (a \<le> b)"
| "less_eq_cell (IntCell a) (TimeCell b) = True"
| "less_eq_cell (IntCell a) (StrCell b) = True"
| "less_eq_cell (TimeCell a) (StrCell b) = True"
| "less_eq_cell (TimeCell a) (IntCell b) = False"
| "less_eq_cell (StrCell a) (IntCell b) = False"
| "less_eq_cell (StrCell a) (TimeCell b) = False"

definition less_cell :: "cell \<Rightarrow> cell \<Rightarrow> bool" where
  "less_cell x y = (x \<le> y \<and> \<not> y \<le> x)"

instance
proof
  fix x y z :: cell
  show "(x < y) = (x \<le> y \<and> \<not> y \<le> x)"
    by (simp add: less_cell_def)
  show "x \<le> x"
    by (cases x) simp_all
  show "x \<le> y \<Longrightarrow> y \<le> z \<Longrightarrow> x \<le> z"
    by (cases x; cases y; cases z) auto
  show "x \<le> y \<Longrightarrow> y \<le> x \<Longrightarrow> x = y"
    by (cases x; cases y) auto
  show "x \<le> y \<or> y \<le> x"
    by (cases x; cases y) auto
qed

end

definition COLUMNS :: "string list" where
  "COLUMNS = [''name'', ''price'', ''company'', ''last_updated'', ''category'']"

definition cell_at :: "string \<Rightarrow> product \<Rightarrow> cell" where
  "cell_at key r =
     (if key = ''name'' then StrCell (name r)
      else if key = ''price'' then IntCell (price r)
      else if key = ''company'' then StrCell (company r)
      else if key = ''last_updated'' then TimeCell (last_updated r)
      else StrCell (category r))"

text \<open>\<open>df[key]\<close>: the values of a column, or \<open>KeyError\<close> when the frame has no such column.\<close>

definition column :: "string \<Rightarrow> product list \<Rightarrow> error + cell list" where
  "column key df =
     (if key \<in> set COLUMNS then Inr (map (cell_at key) df) else Inl (KeyError key))"

subsection \<open>Masks and positional selection\<close>

definition isin :: "'a list \<Rightarrow> 'a list \<Rightarrow> bool list" where
  "isin col vals = map (\<lambda>v. v \<in> set vals) col"

definition between :: "int list \<Rightarrow> int \<Rightarrow> int \<Rightarrow> bool list" where
  "between col left right = map (\<lambda>v. left \<le> v \<and> v \<le> right) col"

definition mask_and :: "bool list \<Rightarrow> bool list \<Rightarrow> bool list" where
  "mask_and a b = map (\<lambda>(x, y). x \<and> y) (zip a b)"

definition mask_or :: "bool list \<Rightarrow> bool list \<Rightarrow> bool list" where
  "mask_or a b = map (\<lambda>(x, y). x \<or> y) (zip a b)"

text \<open>\<open>df[mask]\<close>: the rows whose mask entry is true, in index order.\<close>

definition getitem_mask :: "'a list \<Rightarrow> bool list \<Rightarrow> 'a list" where
  "getitem_mask df msk = map fst (filter snd (zip df msk))"

text \<open>\<open>xs[indexer]\<close>, \<open>take\<close>: selection by position; a position out of range raises.\<close>

definition take_rows :: "'a list \<Rightarrow> nat list \<Rightarrow> error + 'a list" where
  "take_rows xs indexer =
     (if list_all (\<lambda>i. i < length xs) indexer then Inr (map (\<lambda>i. xs ! i) indexer)
      else Inl IndexError)"

text \<open>\<open>reset_index(drop=True)\<close> renumbers the index labels 0, 1, ...; the rows stay.\<close>

definition reset_index :: "'a list \<Rightarrow> 'a list" where
  "reset_index df = df"

subsection \<open>Sorting a frame\<close>

text \<open>
  \<open>sort_values(sort_by, ascending=ascending)\<close> is called without \<open>kind\<close>, so pandas sorts
  with its default, numpy's \<open>quicksort\<close>. For one column pandas computes the order in
  \<open>nargsort\<close>:
  \<^verbatim>\<open>
  idx = np.arange(len(items))
  nonnan = items[~mask]; nonnan_idx = idx[~mask]      # no missing value in a column
  if not ascending:
      nonnan = nonnan[::-1]; nonnan_idx = nonnan_idx[::-1]
  indexer = nonnan_idx[nonnan.argsort(kind=kind)]
  if not ascending:
      indexer = indexer[::-1]
  \<close>
  and then takes the rows at \<open>indexer\<close>. numpy's \<open>argsort\<close> is not part of the program.
  It is an argument \<open>srt\<close> of the model: what numpy promises for every kind is that the
  result lists the positions of its argument, each once, in an order that sorts it
  (\<open>is_argsort_of\<close>); only the kinds \<open>stable\<close> and \<open>mergesort\<close> promise in addition
  that equal values keep their order, and \<open>quicksort\<close> does not (it is an introsort,
  which partitions longer arrays by exchanging elements across a pivot).
\<close>

type_synonym argsort = "cell list \<Rightarrow> nat list"


text \<open>The stable argsort: positions ordered by value, equal values by position.\<close>

definition stable_argsort :: argsort where
  "stable_argsort ks = sort_key (\<lambda>i. ks ! i) [0 ..< length ks]"


definition nargsort :: "argsort \<Rightarrow> cell list \<Rightarrow> bool \<Rightarrow> error + nat list" where
  "nargsort srt items ascending =
     (let idx = [0 ..< length items];
          nonnan = (if ascending then items else rev items);
          nonnan_idx = (if ascending then idx else rev idx)
      in case take_rows nonnan_idx (srt nonnan) of
           Inl e \<Rightarrow> Inl e
         | Inr indexer \<Rightarrow> Inr (if ascending then indexer else rev indexer))"

definition sort_values :: "argsort \<Rightarrow> product list \<Rightarrow> string \<Rightarrow> bool \<Rightarrow> error + product list" where
  "sort_values srt df key ascending =
     (case column key df of
        Inl e \<Rightarrow> Inl e
      | Inr k \<Rightarrow>
          (case nargsort srt k ascending of
             Inl e \<Rightarrow> Inl e
           | Inr indexer \<Rightarrow> take_rows df indexer))"

subsection \<open>The filter\<close>

text \<open>
  \<^verbatim>\<open>
  def filter_data(df, categories, price_range, sort_by, ascending=True):
      filtered = df[
          df["category"].isin(categories) &
          df["price"].between(price_range[0], price_range[1])
      ]
      return filtered.sort_values(sort_by, ascending=ascending).reset_index(drop=True)
  \<close>
\<close>

definition filter_data ::
  "argsort \<Rightarrow> product list \<Rightarrow> string list \<Rightarrow> int \<times> int \<Rightarrow> string \<Rightarrow> bool \<Rightarrow>
   error + product list" where
  "filter_data srt df categories price_range sort_by ascending =
     (let filtered = getitem_mask df
            (mask_and (isin (map category df) categories)
                      (between (map price df) (fst price_range) (snd price_range)))
      in case sort_values srt filtered sort_by ascending of
           Inl e \<Rightarrow> Inl e
         | Inr sorted_df \<Rightarrow> Inr (reset_index sorted_df))"

text \<open>The rows the filter is meant to keep, as a predicate on one row.\<close>

definition retained :: "string list \<Rightarrow> int \<times> int \<Rightarrow> product \<Rightarrow> bool" where
  "retained categories price_range r \<longleftrightarrow>
     category r \<in> set categories \<and> fst price_range \<le> price r \<and> price r \<le> snd price_range"



text \<open>A frame in which two rows have the same price.\<close>

definition tied_rows :: "product list" where
  "tied_rows =
    [\<lparr>name = ''Keyboard'', price = 1200, company = ''Logitech'',
      last_updated = (2025, 8, 5), category = ''Accessories''\<rparr>,
     \<lparr>name = ''Webcam'', price = 1200, company = ''HP'',
      last_updated = (2025, 7, 30), category = ''Accessories''\<rparr>,
     \<lparr>name = ''Mouse'', price = 800, company = ''HP'',
      last_updated = (2025, 7, 30), category = ''Accessories''\<rparr>]"

subsection \<open>The search box\<close>

text \<open>
  \<^verbatim>\<open>
  mask = (
      df["name"].str.contains(query, case=False, na=False)
      | df["company"].str.contains(query, case=False, na=False)
  )
  result_df = df[mask]
  \<close>
  \<open>str.contains\<close> is called without \<open>regex\<close>, whose default is \<open>True\<close>: pandas compiles
  the query with \<open>re.compile(query, re.IGNORECASE)\<close> and keeps the strings in which
  \<open>search\<close> finds a match. Python's regular expressions are modelled on a fragment:
  \<^item> a character outside \<open>SPECIAL_CHARS\<close> stands for itself, in either case;
  \<^item> a dot stands for any character except a newline;
  \<^item> a pattern that starts with one of the repetition characters \<open>*\<close>, \<open>+\<close>, \<open>?\<close> is
    rejected by \<open>re.compile\<close> with \<open>re.error\<close> (nothing to repeat);
  \<^item> every other pattern is outside the fragment: the model answers
    \<open>PatternNotModelled\<close> and nothing is proved about it.
  Letters are the ASCII letters.
\<close>

definition SPECIAL_CHARS :: string where
  "SPECIAL_CHARS =
     [CHR ''.'', CHR 0x5C, CHR ''['', CHR ''{'', CHR ''('', CHR '')'', CHR ''*'', CHR ''+'',
      CHR ''?'', CHR ''^'', CHR ''$'', CHR ''|'']"

datatype re_item = Literal char | AnyChar

definition re_compile :: "string \<Rightarrow> error + re_item list" where
  "re_compile pat =
     (if pat \<noteq> [] \<and> hd pat \<in> set ''*+?'' then Inl (ReError ''nothing to repeat'')
      else if list_ex (\<lambda>c. c \<in> set SPECIAL_CHARS \<and> c \<noteq> CHR ''.'') pat
        then Inl PatternNotModelled
      else Inr (map (\<lambda>c. if c = CHR ''.'' then AnyChar else Literal c) pat))"

definition lower_char :: "char \<Rightarrow> char" where
  "lower_char c =
     (case map_of (zip ''ABCDEFGHIJKLMNOPQRSTUVWXYZ'' ''abcdefghijklmnopqrstuvwxyz'') c of
        None \<Rightarrow> c
      | Some l \<Rightarrow> l)"

fun item_matches :: "re_item \<Rightarrow> char \<Rightarrow> bool" where
  "item_matches (Literal c) t = (lower_char t = lower_char c)"
| "item_matches AnyChar t = (t \<noteq> CHR 0x0A)"

fun match_here :: "re_item list \<Rightarrow> string \<Rightarrow> bool" where
  "match_here [] ts = True"
| "match_here (i # is) [] = False"
| "match_here (i # is) (t # ts) = (item_matches i t \<and> match_here is ts)"

fun re_search :: "re_item list \<Rightarrow> string \<Rightarrow> bool" where
  "re_search p [] = match_here p []"
| "re_search p (t # ts) = (match_here p (t # ts) \<or> re_search p ts)"

definition str_contains :: "string \<Rightarrow> string list \<Rightarrow> error + bool list" where
  "str_contains pat col =
     (case re_compile pat of
        Inl e \<Rightarrow> Inl e
      | Inr p \<Rightarrow> Inr (map (re_search p) col))"

definition search_mask :: "string \<Rightarrow> product list \<Rightarrow> error + bool list" where
  "search_mask query df =
     (case str_contains query (map name df) of
        Inl e \<Rightarrow> Inl e
      | Inr by_name \<Rightarrow>
          (case str_contains query (map company df) of
             Inl e \<Rightarrow> Inl e
           | Inr by_company \<Rightarrow> Inr (mask_or by_name by_company)))"

definition search :: "product list \<Rightarrow> string \<Rightarrow> error + product list" where
  "search df query =
     (case search_mask query df of
        Inl e \<Rightarrow> Inl e
      | Inr msk \<Rightarrow> Inr (getitem_mask df msk))"

text \<open>
  What is displayed. The filter runs first, whatever the query (an exception there ends
  the script); then the query decides.
  \<^verbatim>\<open>
  filtered_df = filter_data(df, selected_cats, price_sel, sort_by, ascending)
  if query:
      mask = ...
      result_df = df[mask]
  else:
      result_df = filtered_df
  \<close>
\<close>

definition result_df ::
  "argsort \<Rightarrow> product list \<Rightarrow> string list \<Rightarrow> int \<times> int \<Rightarrow> string \<Rightarrow> bool \<Rightarrow> string \<Rightarrow>
   error + product list" where
  "result_df srt df selected_cats price_sel sort_by ascending query =
     (case filter_data srt df selected_cats price_sel sort_by ascending of
        Inl e \<Rightarrow> Inl e
      | Inr filtered_df \<Rightarrow> if query \<noteq> [] then search df query else Inr filtered_df)"

text \<open>
  The search as the specification words it: the query occurs in the text as a
  contiguous piece, letter case aside.
\<close>

definition ci_substring :: "string \<Rightarrow> string \<Rightarrow> bool" where
  "ci_substring query text \<longleftrightarrow> sublist (map lower_char query) (map lower_char text)"

definition search_spec :: "product list \<Rightarrow> string \<Rightarrow> product list" where
  "search_spec df query =
     filter (\<lambda>r. ci_substring query (name r) \<or> ci_substring query (company r)) df"

subsection \<open>Frames as objects\<close>




section \<open>Properties\<close>

lemma load_items_acc:
  "load_items parse cat items data =
     (case all_or_first_error (\<lambda>(c, d). make_row parse c d) (map (\<lambda>(item, d). (cat, d)) items) of
        Inl e \<Rightarrow> Inl e
      | Inr rs \<Rightarrow> Inr (data @ rs))"
  by (induction items arbitrary: data) (auto split: sum.splits)

lemma all_or_first_error_append:
  "all_or_first_error f (xs @ ys) =
     (case all_or_first_error f xs of
        Inl e \<Rightarrow> Inl e
      | Inr us \<Rightarrow> (case all_or_first_error f ys of Inl e \<Rightarrow> Inl e | Inr vs \<Rightarrow> Inr (us @ vs)))"
  by (induction xs) (auto split: sum.splits)

lemma load_categories_acc:
  "load_categories parse cat data =
     (case all_or_first_error (\<lambda>(c, d). make_row parse c d) (entries_in_order cat) of
        Inl e \<Rightarrow> Inl e
      | Inr rs \<Rightarrow> Inr (data @ rs))"
proof (induction cat arbitrary: data)
  case Nil
  then show ?case by (simp add: entries_in_order_def)
next
  case (Cons a cat)
  obtain c items where a: "a = (c, items)" by (cases a)
  have split: "entries_in_order (a # cat) = map (\<lambda>(item, d). (c, d)) items @ entries_in_order cat"
    by (simp add: entries_in_order_def a)
  show ?case
    unfolding split all_or_first_error_append
    by (simp add: a load_items_acc Cons.IH split: sum.splits)
qed

lemma to_datetime_samples:
  "to_datetime ''2025-10-10'' = Inr (2025, 10, 10)"
  "to_datetime ''2025-09-15'' = Inr (2025, 9, 15)"
  "to_datetime ''2025-08-20'' = Inr (2025, 8, 20)"
  "to_datetime ''2025-09-25'' = Inr (2025, 9, 25)"
  "to_datetime ''2025-07-18'' = Inr (2025, 7, 18)"
  "to_datetime ''2025-08-05'' = Inr (2025, 8, 5)"
  "to_datetime ''2025-07-30'' = Inr (2025, 7, 30)"
  by (simp_all add: to_datetime_def digit_val_def days_in_month_def is_leap_def)

lemma load_data_sample: "load_data = Inr sample_rows"
  by (simp add: load_data_def load_data_from_def PRODUCTS_def sample_rows_def make_row_def
      to_datetime_samples)

lemma all_or_first_error_rows:
  "all_or_first_error (\<lambda>(c, d). make_row parse c d) es = Inr rs \<Longrightarrow>
   map (\<lambda>r. (name r, price r, company r, category r)) rs =
   map (\<lambda>(c, d). (name d, price d, company d, c)) es"
proof (induction es arbitrary: rs)
  case Nil
  then show ?case by simp
next
  case (Cons e es)
  obtain c d where e: "e = (c, d)" by (cases e)
  from Cons.prems obtain r rs' where
    r: "make_row parse c d = Inr r" and
    rs': "all_or_first_error (\<lambda>(c, d). make_row parse c d) es = Inr rs'" and
    rs: "rs = r # rs'"
    by (auto simp: e split: sum.splits)
  from r have "(name r, price r, company r, category r) = (name d, price d, company d, c)"
    by (auto simp: make_row_def split: sum.splits)
  with Cons.IH [OF rs'] show ?case by (simp add: e rs)
qed

subsection \<open>The loader\<close>

text \<open>
  C5. \<open>load_data\<close> flattens the nested dictionary into one row per item, the item's own
  attributes together with the name of the enclosing category, in the insertion order of
  the dictionary (categories in order, the items of a category in order) and without
  sorting: the two loops compute what the row-by-row conversion of
  \<open>entries_in_order\<close> computes, for any date parser, a parse error included; a frame that
  is returned has the attributes and categories of the entries, position by position. For
  the catalogue of the program the frame has exactly 7 rows.
\<close>

theorem load_data_insertion_order:
  "load_data_from parse cat =
     all_or_first_error (\<lambda>(c, d). make_row parse c d) (entries_in_order cat) \<and>
   (\<forall>rs. load_data_from parse cat = Inr rs \<longrightarrow>
      map (\<lambda>r. (name r, price r, company r, category r)) rs =
      map (\<lambda>(c, d). (name d, price d, company d, c)) (entries_in_order cat)) \<and>
   load_data = Inr sample_rows \<and> length sample_rows = 7"
proof -
  have eq: "load_data_from parse cat =
      all_or_first_error (\<lambda>(c, d). make_row parse c d) (entries_in_order cat)"
    by (simp add: load_data_from_def load_categories_acc split: sum.splits)
  have "length sample_rows = 7"
    by (simp add: sample_rows_def)
  with eq load_data_sample show ?thesis
    by (auto dest: all_or_first_error_rows)
qed

theorem load_data_insertion_order_witness:
  "load_data_from to_datetime PRODUCTS = Inr sample_rows \<and>
   map (\<lambda>r. (name r, price r, company r, category r)) sample_rows =
   map (\<lambda>(c, d). (name d, price d, company d, c)) (entries_in_order PRODUCTS) \<and>
   length sample_rows = 7"
  using load_data_insertion_order [of to_datetime PRODUCTS]
  unfolding load_data_def by blast

subsection \<open>The filter\<close>

lemma getitem_mask_map:
  "getitem_mask df (map P df) = filter P df"
  by (induction df) (simp_all add: getitem_mask_def)

lemma filter_mask:
  "mask_and (isin (map category df) cats) (between (map price df) lo hi) =
   map (retained cats (lo, hi)) df"
  by (induction df) (simp_all add: mask_and_def isin_def between_def retained_def)

lemma filtered_eq:
  "getitem_mask df (mask_and (isin (map category df) cats) (between (map price df) lo hi)) =
   filter (retained cats (lo, hi)) df"
  by (simp add: filter_mask getitem_mask_map)

lemma filter_data_unfold:
  "filter_data srt df cats pr sort_by asc =
   sort_values srt (filter (retained cats pr) df) sort_by asc"
  by (cases pr) (simp add: filter_data_def filtered_eq reset_index_def split: sum.splits)

lemma perm_set:
  "mset p = mset [0 ..< n] \<Longrightarrow> set p = {0 ..< n}"
  by (metis mset_eq_setD set_upt)

lemma take_rows_perm:
  assumes "mset p = mset [0 ..< length xs]"
  shows "take_rows xs p = Inr (map (\<lambda>i. xs ! i) p)"
    and "mset (map (\<lambda>i. xs ! i) p) = mset xs"
proof -
  have "set p = {0 ..< length xs}"
    using assms by (rule perm_set)
  then show "take_rows xs p = Inr (map (\<lambda>i. xs ! i) p)"
    by (simp add: take_rows_def list_all_iff)
  have "mset (map (\<lambda>i. xs ! i) p) = image_mset (\<lambda>i. xs ! i) (mset p)" by simp
  also have "\<dots> = mset (map (\<lambda>i. xs ! i) [0 ..< length xs])" by (simp add: assms)
  also have "\<dots> = mset xs" by (simp add: map_nth)
  finally show "mset (map (\<lambda>i. xs ! i) p) = mset xs" .
qed

lemma nargsort_perm:
  assumes "\<And>ks. mset (srt ks) = mset [0 ..< length ks]"
  shows "\<exists>p. nargsort srt items asc = Inr p \<and> mset p = mset [0 ..< length items]"
proof (cases asc)
  case True
  have p: "mset (srt items) = mset [0 ..< length [0 ..< length items]]"
    by (simp add: assms)
  show ?thesis
    using take_rows_perm [OF p] True by (simp add: nargsort_def map_nth assms)
next
  case False
  have p: "mset (srt (rev items)) = mset [0 ..< length (rev [0 ..< length items])]"
    by (simp add: assms)
  from take_rows_perm [OF p] False show ?thesis
    by (simp add: nargsort_def)
qed

lemma sort_values_perm:
  assumes "\<And>ks. mset (srt ks) = mset [0 ..< length ks]" and "key \<in> set COLUMNS"
  shows "\<exists>out. sort_values srt df key asc = Inr out \<and> mset out = mset df"
proof -
  obtain p where p: "nargsort srt (map (cell_at key) df) asc = Inr p"
    "mset p = mset [0 ..< length df]"
    using nargsort_perm [of srt "map (cell_at key) df" asc, OF assms(1)] by auto
  show ?thesis
    using take_rows_perm [OF p(2)] p(1) assms(2) by (simp add: sort_values_def column_def)
qed

lemma sort_values_KeyError:
  "key \<notin> set COLUMNS \<Longrightarrow> sort_values srt df key asc = Inl (KeyError key)"
  by (simp add: sort_values_def column_def)

lemma stable_argsort_perm: "mset (stable_argsort ks) = mset [0 ..< length ks]"
  by (simp add: stable_argsort_def)



lemmas run_defs = filter_data_def getitem_mask_def mask_and_def isin_def between_def
  sort_values_def column_def COLUMNS_def cell_at_def nargsort_def take_rows_def
  reset_index_def

text \<open>The example of the specification: the electronics, cheapest first.\<close>

lemma electronics_by_price:
  "filter_data stable_argsort sample_rows [''Electronics''] (0, 100000) ''price'' True =
     Inr [sample_rows ! 2, sample_rows ! 1, sample_rows ! 0]"
  by (simp add: run_defs sample_rows_def stable_argsort_def)

text \<open>
  C1. For every frame, every list of categories and every price range, \<open>filter_data\<close>
  returns exactly the rows whose category is one of the given ones and whose price lies
  between the two bounds, both included; with no category given the result is empty. The
  sort column is one of the frame's columns, and the sorting routine returns, as every
  numpy kind does, each position once. (The bounds need not be ordered for this.)
\<close>

theorem filter_data_retains_exactly:
  assumes "\<And>ks. mset (srt ks) = mset [0 ..< length ks]" and "sort_by \<in> set COLUMNS"
  shows "\<exists>out. filter_data srt df cats (lo, hi) sort_by asc = Inr out \<and>
           mset out =
             mset (filter (\<lambda>r. category r \<in> set cats \<and> lo \<le> price r \<and> price r \<le> hi) df) \<and>
           (cats = [] \<longrightarrow> out = [])"
proof -
  let ?kept = "filter (retained cats (lo, hi)) df"
  obtain out where out: "sort_values srt ?kept sort_by asc = Inr out" "mset out = mset ?kept"
    using sort_values_perm [OF assms, of ?kept asc] by auto
  have "filter_data srt df cats (lo, hi) sort_by asc = Inr out"
    using out(1) by (simp add: filter_data_unfold)
  moreover have "?kept =
      filter (\<lambda>r. category r \<in> set cats \<and> lo \<le> price r \<and> price r \<le> hi) df"
    by (rule filter_cong) (simp_all add: retained_def)
  moreover have "cats = [] \<longrightarrow> out = []"
    using out(2) by (auto simp: retained_def)
  ultimately show ?thesis using out(2) by simp
qed

theorem filter_data_retains_exactly_witness:
  "(\<exists>out. filter_data stable_argsort sample_rows [''Electronics''] (0, 100000) ''price'' True
            = Inr out \<and>
          mset out =
            mset (filter (\<lambda>r. category r \<in> set [''Electronics''] \<and> 0 \<le> price r \<and>
                                price r \<le> 100000) sample_rows)) \<and>
   filter_data stable_argsort sample_rows [] (0, 100000) ''price'' True = Inr []"
  using filter_data_retains_exactly
    [of stable_argsort "''price''" sample_rows "[''Electronics'']" 0 100000 True,
     OF stable_argsort_perm]
    filter_data_retains_exactly
    [of stable_argsort "''price''" sample_rows "[]" 0 100000 True, OF stable_argsort_perm]
  by (auto simp: COLUMNS_def)

subsection \<open>The order of the result\<close>
















subsection \<open>The sort column\<close>

text \<open>
  C8, as amended. \<open>filter_data\<close> checks no sort key itself: the key is looked up among
  the columns of the frame. A key that is no column (\<open>name\<close>, \<open>price\<close>, \<open>company\<close>,
  \<open>last_updated\<close>, \<open>category\<close>) fails with \<open>KeyError\<close>; every column, the three of
  the sidebar among them, raises no error.
\<close>

theorem filter_data_sort_key_errors:
  assumes "\<And>ks. mset (srt ks) = mset [0 ..< length ks]"
  shows "(sort_by \<in> set COLUMNS \<longrightarrow> (\<exists>out. filter_data srt df cats pr sort_by asc = Inr out)) \<and>
         (sort_by \<notin> set COLUMNS \<longrightarrow>
            filter_data srt df cats pr sort_by asc = Inl (KeyError sort_by)) \<and>
         set [''price'', ''last_updated'', ''name''] \<subseteq> set COLUMNS"
proof -
  have "\<exists>out. filter_data srt df cats pr sort_by asc = Inr out" if "sort_by \<in> set COLUMNS"
    using sort_values_perm [OF assms that, of "filter (retained cats pr) df" asc]
    by (auto simp: filter_data_unfold)
  moreover have "filter_data srt df cats pr sort_by asc = Inl (KeyError sort_by)"
    if "sort_by \<notin> set COLUMNS"
    using that by (simp add: filter_data_unfold sort_values_KeyError)
  moreover have "set [''price'', ''last_updated'', ''name''] \<subseteq> set COLUMNS"
    by (simp add: COLUMNS_def)
  ultimately show ?thesis by blast
qed

theorem filter_data_sort_key_errors_witness:
  "(\<exists>out. filter_data stable_argsort sample_rows [''Electronics''] (0, 100000) ''name'' True
      = Inr out) \<and>
   filter_data stable_argsort sample_rows [''Electronics''] (0, 100000) ''rating'' True
      = Inl (KeyError ''rating'')"
  using filter_data_sort_key_errors
      [of stable_argsort "''name''" sample_rows "[''Electronics'']" "(0, 100000)" True,
       OF stable_argsort_perm]
    filter_data_sort_key_errors
      [of stable_argsort "''rating''" sample_rows "[''Electronics'']" "(0, 100000)" True,
       OF stable_argsort_perm]
  by (simp add: COLUMNS_def)

text \<open>
  The property as first stated, that a key other than \<open>price\<close>, \<open>last_updated\<close>
  and \<open>name\<close> fails, does not hold at the key \<open>company\<close>: the call returns the
  rows ordered by company.
\<close>

theorem filter_data_company_counterexample:
  "''company'' \<notin> set [''price'', ''last_updated'', ''name''] \<and>
   filter_data stable_argsort sample_rows [''Electronics'', ''Appliances'', ''Accessories'']
       (800, 70000) ''company'' True =
     Inr [sample_rows ! 0, sample_rows ! 6, sample_rows ! 3, sample_rows ! 5,
          sample_rows ! 2, sample_rows ! 1, sample_rows ! 4]"
  by (simp add: run_defs sample_rows_def stable_argsort_def)

subsection \<open>The argument of the filter\<close>



subsection \<open>The search box\<close>

lemma lower_char_ascii:
  "lower_char CHR ''A'' = CHR ''a''"
  "lower_char CHR ''B'' = CHR ''b''"
  "lower_char CHR ''C'' = CHR ''c''"
  "lower_char CHR ''D'' = CHR ''d''"
  "lower_char CHR ''E'' = CHR ''e''"
  "lower_char CHR ''F'' = CHR ''f''"
  "lower_char CHR ''G'' = CHR ''g''"
  "lower_char CHR ''H'' = CHR ''h''"
  "lower_char CHR ''I'' = CHR ''i''"
  "lower_char CHR ''J'' = CHR ''j''"
  "lower_char CHR ''K'' = CHR ''k''"
  "lower_char CHR ''L'' = CHR ''l''"
  "lower_char CHR ''M'' = CHR ''m''"
  "lower_char CHR ''N'' = CHR ''n''"
  "lower_char CHR ''O'' = CHR ''o''"
  "lower_char CHR ''P'' = CHR ''p''"
  "lower_char CHR ''Q'' = CHR ''q''"
  "lower_char CHR ''R'' = CHR ''r''"
  "lower_char CHR ''S'' = CHR ''s''"
  "lower_char CHR ''T'' = CHR ''t''"
  "lower_char CHR ''U'' = CHR ''u''"
  "lower_char CHR ''V'' = CHR ''v''"
  "lower_char CHR ''W'' = CHR ''w''"
  "lower_char CHR ''X'' = CHR ''x''"
  "lower_char CHR ''Y'' = CHR ''y''"
  "lower_char CHR ''Z'' = CHR ''z''"
  "lower_char CHR ''a'' = CHR ''a''"
  "lower_char CHR ''b'' = CHR ''b''"
  "lower_char CHR ''c'' = CHR ''c''"
  "lower_char CHR ''d'' = CHR ''d''"
  "lower_char CHR ''e'' = CHR ''e''"
  "lower_char CHR ''f'' = CHR ''f''"
  "lower_char CHR ''g'' = CHR ''g''"
  "lower_char CHR ''h'' = CHR ''h''"
  "lower_char CHR ''i'' = CHR ''i''"
  "lower_char CHR ''j'' = CHR ''j''"
  "lower_char CHR ''k'' = CHR ''k''"
  "lower_char CHR ''l'' = CHR ''l''"
  "lower_char CHR ''m'' = CHR ''m''"
  "lower_char CHR ''n'' = CHR ''n''"
  "lower_char CHR ''o'' = CHR ''o''"
  "lower_char CHR ''p'' = CHR ''p''"
  "lower_char CHR ''q'' = CHR ''q''"
  "lower_char CHR ''r'' = CHR ''r''"
  "lower_char CHR ''s'' = CHR ''s''"
  "lower_char CHR ''t'' = CHR ''t''"
  "lower_char CHR ''u'' = CHR ''u''"
  "lower_char CHR ''v'' = CHR ''v''"
  "lower_char CHR ''w'' = CHR ''w''"
  "lower_char CHR ''x'' = CHR ''x''"
  "lower_char CHR ''y'' = CHR ''y''"
  "lower_char CHR ''z'' = CHR ''z''"
  "lower_char CHR '' '' = CHR '' ''"
  "lower_char CHR ''.'' = CHR ''.''"
  by (simp_all add: lower_char_def)

lemmas search_defs = search_def search_mask_def str_contains_def re_compile_def
  SPECIAL_CHARS_def getitem_mask_def mask_or_def lower_char_ascii

lemma search_mask_compiled:
  "re_compile query = Inr p \<Longrightarrow>
   search_mask query df = Inr (map (\<lambda>r. re_search p (name r) \<or> re_search p (company r)) df)"
  by (induction df) (simp_all add: search_mask_def str_contains_def mask_or_def)

lemma search_compiled:
  "re_compile query = Inr p \<Longrightarrow>
   search df query = Inr (filter (\<lambda>r. re_search p (name r) \<or> re_search p (company r)) df)"
  by (simp add: search_def search_mask_compiled getitem_mask_map)

text \<open>
  A query without any of the special characters is searched for as the specification
  says: as a piece of the name or of the company, letter case aside.
\<close>

lemma match_here_plain:
  "match_here (map Literal q) s = prefix (map lower_char q) (map lower_char s)"
  by (induction q arbitrary: s) (case_tac [2] s, auto)

lemma re_search_plain:
  "re_search (map Literal q) s = sublist (map lower_char q) (map lower_char s)"
proof (induction s)
  case Nil
  show ?case by (cases q) simp_all
next
  case (Cons t ts)
  then show ?case
    using match_here_plain [of q "t # ts"] by (simp add: sublist_Cons_right)
qed

lemma re_compile_plain:
  assumes "list_all (\<lambda>c. c \<notin> set SPECIAL_CHARS) query"
  shows "re_compile query = Inr (map Literal query)"
proof -
  have a: "\<not> list_ex (\<lambda>c. c \<in> set SPECIAL_CHARS \<and> c \<noteq> CHR ''.'') query"
    using assms by (auto simp: list_all_iff list_ex_iff)
  have b: "\<not> (query \<noteq> [] \<and> hd query \<in> set ''*+?'')"
    using assms by (cases query) (auto simp: SPECIAL_CHARS_def)
  have c: "map (\<lambda>c. if c = CHR ''.'' then AnyChar else Literal c) query = map Literal query"
    using assms by (auto simp: list_all_iff SPECIAL_CHARS_def)
  show ?thesis
    unfolding re_compile_def using a b c by simp
qed

lemma search_plain_query:
  assumes "list_all (\<lambda>c. c \<notin> set SPECIAL_CHARS) query"
  shows "search df query = Inr (search_spec df query)"
  using search_compiled [OF re_compile_plain [OF assms], of df]
  by (simp add: re_search_plain search_spec_def ci_substring_def)

text \<open>The two examples of the specification.\<close>

lemma search_hp: "search sample_rows ''hp'' = Inr [sample_rows ! 6]"
  by (simp add: search_defs sample_rows_def)

lemma search_dell: "search sample_rows ''dell'' = Inr [sample_rows ! 0]"
  by (simp add: search_defs sample_rows_def)

text \<open>
  C4. The specification has the search keep exactly the rows in whose name or company
  the query occurs as a piece, letter case aside. The program passes the query to
  \<open>str.contains\<close> as a regular expression: the query \<open>.\<close> keeps all seven rows of the
  catalogue, none of which has a dot in its name or company, and the query \<open>+\<close> raises
  \<open>re.error\<close>, where the search of the specification finds nothing and raises nothing.
\<close>

theorem search_query_is_regex:
  "search sample_rows ''.'' = Inr sample_rows \<and> search_spec sample_rows ''.'' = [] \<and>
   search sample_rows ''+'' = Inl (ReError ''nothing to repeat'') \<and>
   search_spec sample_rows ''+'' = []"
proof -
  have "search sample_rows ''.'' = Inr sample_rows"
    by (simp add: search_defs sample_rows_def)
  moreover have "search_spec sample_rows ''.'' = []"
    by (simp add: search_spec_def ci_substring_def sample_rows_def lower_char_ascii
        sublist_Cons_right)
  moreover have "search sample_rows ''+'' = Inl (ReError ''nothing to repeat'')"
    by (simp add: search_defs)
  moreover have "search_spec sample_rows ''+'' = []"
    by (simp add: search_spec_def ci_substring_def sample_rows_def lower_char_ascii
        lower_char_def sublist_Cons_right)
  ultimately show ?thesis by simp
qed

text \<open>
  C7. The search for the empty string returns all rows of the frame, unchanged and in
  their order.
\<close>

theorem search_empty_query_all: "search df [] = Inr df"
proof -
  have "re_compile [] = Inr []"
    by (simp add: re_compile_def)
  moreover have "re_search [] s" for s
    by (cases s) simp_all
  ultimately show ?thesis
    by (simp add: search_compiled)
qed

theorem search_empty_query_all_witness: "search sample_rows [] = Inr sample_rows"
  using search_empty_query_all [of sample_rows] .

text \<open>
  C10. Which rows the search selects depends on their names and companies only: two
  frames that agree, row by row, on name and company (and so have the same length) get
  the same mask from the same query, an error included.
\<close>

theorem search_mask_name_company_only:
  assumes "map name xs = map name ys" and "map company xs = map company ys"
  shows "search_mask query xs = search_mask query ys"
  unfolding search_mask_def assms ..

theorem search_mask_name_company_only_witness:
  "search_mask ''hp'' tied_rows = Inr [False, True, True] \<and>
   search_mask ''hp''
     (map (\<lambda>r. r\<lparr>price := 0, last_updated := (2000, 1, 1), category := ''Other''\<rparr>)
        tied_rows) =
   Inr [False, True, True]"
proof -
  have "search_mask ''hp'' tied_rows = Inr [False, True, True]"
    by (simp add: search_defs tied_rows_def)
  then show ?thesis
    using search_mask_name_company_only
      [of tied_rows
          "map (\<lambda>r. r\<lparr>price := 0, last_updated := (2000, 1, 1), category := ''Other''\<rparr>)
             tied_rows"
          "''hp''"]
    by (simp add: o_def)
qed

subsection \<open>What is displayed\<close>

text \<open>
  C3. Once the filter has returned, a query that is not empty makes the displayed rows
  the search over the whole frame \<open>df\<close>, whatever the categories, the price range, the
  sort column and the direction are; only for the empty query are the filtered rows
  displayed.
\<close>

theorem result_df_query_bypasses_filter:
  assumes "filter_data srt df selected_cats price_sel sort_by ascending = Inr filtered_df"
  shows "(query \<noteq> [] \<longrightarrow>
            result_df srt df selected_cats price_sel sort_by ascending query = search df query) \<and>
         (query = [] \<longrightarrow>
            result_df srt df selected_cats price_sel sort_by ascending query = Inr filtered_df)"
  using assms by (simp add: result_df_def)

theorem result_df_query_bypasses_filter_witness:
  "result_df stable_argsort sample_rows [''Electronics''] (0, 100000) ''price'' True ''hp'' =
     Inr [sample_rows ! 6] \<and>
   result_df stable_argsort sample_rows [''Electronics''] (0, 100000) ''price'' True [] =
     Inr [sample_rows ! 2, sample_rows ! 1, sample_rows ! 0]"
  using result_df_query_bypasses_filter [OF electronics_by_price, of "''hp''"]
    result_df_query_bypasses_filter [OF electronics_by_price, of "[]"]
  by (simp add: search_hp)

subsection \<open>The summary\<close>

text \<open>
  The sidebar and the caption show \<open>np.mean(df["price"])\<close>, a 64-bit floating point
  number, the first cut to an integer by \<open>int\<close>, the second rounded by \<open>round(2)\<close>.
  What enters the mean is exact: seven prices whose sum is 204500.
\<close>

lemma sample_price_total:
  "sum_list (map price sample_rows) = 204500 \<and> length sample_rows = 7"
  by (simp add: sample_rows_def)

end
